theory Spec2Isabelle
  imports Complex_Main "HOL-Library.Sublist"
begin

section \<open>Locating a template image on a device screen and clicking it\<close>

text \<open>
  A shallow embedding of \<^verbatim>\<open>uiautomator2/image.py\<close>: the image reader \<^verbatim>\<open>imread\<close>
  with its helpers, and the class \<^verbatim>\<open>ImageX\<close> with \<^verbatim>\<open>match\<close>, \<^verbatim>\<open>__wait\<close>,
  \<^verbatim>\<open>wait\<close>, \<^verbatim>\<open>send_click\<close> and \<^verbatim>\<open>click\<close>.

  The libraries the module calls (cv2, requests, base64, os.path, findit, time, the
  device \<^verbatim>\<open>d\<close>) are not part of the module. The pure ones are fields of an
  environment record; the clock and the device's screen are a state that every
  function takes and returns; every call that leaves the module for the clock, the
  network, the file system, the matcher or the device is appended to a trace.
\<close>

subsection \<open>Data\<close>

type_synonym byte = nat

text \<open>A numpy array of uint8 samples, height by width by channel.\<close>

type_synonym ndarray = "byte list list list"

text \<open>
  A Python float as the matcher returns it: a number, an infinity or NaN. The loop
  compares it with a threshold by \<^verbatim>\<open><\<close> only; \<open>py_lt\<close> is that comparison and
  \<open>py_ge\<close> is \<^verbatim>\<open>>=\<close>. Every comparison with NaN is false.
\<close>

datatype pyfloat = Finite rat | PosInf | NegInf | NaN

fun py_lt :: "pyfloat \<Rightarrow> rat \<Rightarrow> bool" where
  "py_lt (Finite a) t = (a < t)"
| "py_lt PosInf t = False"
| "py_lt NegInf t = True"
| "py_lt NaN t = False"


text \<open>
  The argument of \<^verbatim>\<open>imread\<close>: a numpy array, a pillow image (given by the array that
  \<^verbatim>\<open>convert('RGB')\<close> yields for it) or a string.
\<close>

datatype reference = NdArray ndarray | PilImage ndarray | Str string

text \<open>
  Python exceptions. \<^verbatim>\<open>IOError\<close> and \<^verbatim>\<open>RuntimeError\<close> are the two the module raises
  itself, with their messages; \<open>LibraryError\<close> is any exception raised inside a
  library or device call.
\<close>

datatype error = IOError string | RuntimeError string | LibraryError string

text \<open>
  The outcome of a call: a returned value, a raised exception, or \<open>Unscripted\<close> when
  the run asked the device for more screenshots than the state holds answers for
  (the model's own limit, not a behaviour of the program).
\<close>

datatype 'a outcome = Returns 'a | Raises error | Unscripted

datatype event =
    TimeTime
  | HttpGet string
  | IsFile string
  | Cv2Imread string
  | LoadTemplate
  | Screenshot
  | Find
  | Sleep rat
  | Click int int

text \<open>
  The state: the clock, the answers the device will give to the coming
  \<^verbatim>\<open>d.screenshot\<close> calls (each with the time the poll cycle around it takes), and
  the trace of external calls so far.
\<close>

record world =
  now :: rat
  screens :: "(rat \<times> (error + ndarray)) list"
  trace :: "event list"

text \<open>The entry \<^verbatim>\<open>raw_result['data']['template']['TemplateEngine']\<close> of findit's answer.\<close>

record template_engine =
  target_sim :: pyfloat
  target_point :: "int \<times> int"

text \<open>The dictionary \<^verbatim>\<open>{"similarity": ..., "point": ...}\<close> that \<^verbatim>\<open>match\<close> returns.\<close>

record match_result =
  similarity :: pyfloat
  point :: "int \<times> int"

text \<open>
  The library functions, as the module uses them. \<^verbatim>\<open>cv2.imdecode\<close> and
  \<^verbatim>\<open>cv2.imread\<close> return \<^verbatim>\<open>None\<close> for bytes that are no image.
  \<^verbatim>\<open>base64.decodestring\<close> is given a slice of a \<^verbatim>\<open>str\<close>; the module is
  Python 3, where the function takes bytes only (and is gone from 3.9 on), so every
  call the module makes raises: the laboratory's does. \<open>'r\<close> is what the device's
  \<^verbatim>\<open>click\<close> returns.
\<close>

record 'r env =
  base64_decodestring :: "string \<Rightarrow> error + byte list"
  cv2_imdecode :: "byte list \<Rightarrow> error + ndarray option"
  requests_get :: "string \<Rightarrow> error + byte list"
  os_path_isfile :: "string \<Rightarrow> bool"
  cv2_imread :: "string \<Rightarrow> ndarray option"
  fi_load_template :: "ndarray option \<Rightarrow> error option"
  fi_find :: "ndarray option \<Rightarrow> ndarray \<Rightarrow> error + template_engine"
  d_click :: "int \<Rightarrow> int \<Rightarrow> error + 'r"

subsection \<open>The clock, the device and the trace\<close>

text \<open>
  \<^verbatim>\<open>time.time()\<close> reads the clock and leaves it where it is. Time passes in
  \<^verbatim>\<open>d.screenshot\<close>, by the amount the device's answer comes with (any rational,
  standing for the whole cycle around the call), and in \<^verbatim>\<open>time.sleep\<close>. Times
  and thresholds are rationals: the floating point values of the program without
  rounding.
\<close>

definition log_event :: "event \<Rightarrow> world \<Rightarrow> world" where
  "log_event ev w = w\<lparr>trace := trace w @ [ev]\<rparr>"

definition time_time :: "world \<Rightarrow> rat \<times> world" where
  "time_time w = (now w, log_event TimeTime w)"

definition time_sleep :: "rat \<Rightarrow> world \<Rightarrow> world" where
  "time_sleep secs w = log_event (Sleep secs) (w\<lparr>now := now w + secs\<rparr>)"

definition d_screenshot :: "world \<Rightarrow> ndarray outcome \<times> world" where
  "d_screenshot w =
     (case screens w of
        [] \<Rightarrow> (Unscripted, w)
      | (elapsed, answer) # rest \<Rightarrow>
          (case answer of Inl e \<Rightarrow> Raises e | Inr frame \<Rightarrow> Returns frame,
           log_event Screenshot (w\<lparr>now := now w + elapsed, screens := rest\<rparr>)))"

subsection \<open>Reading an image\<close>

text \<open>\<^verbatim>\<open>cv2_image[:, :, ::-1]\<close>: the channel axis reversed.\<close>

definition pil2cv :: "ndarray \<Rightarrow> ndarray" where
  "pil2cv pil_image = map (map rev) pil_image"

definition cv2pil :: "ndarray \<Rightarrow> ndarray" where
  "cv2pil cv_image = map (map rev) cv_image"

text \<open>\<^verbatim>\<open>data.find(sub)\<close>: the lowest index where \<open>sub\<close> starts, or \<open>-1\<close>.\<close>

fun str_find :: "string \<Rightarrow> string \<Rightarrow> int" where
  "str_find [] sub = (if sub = [] then 0 else - 1)"
| "str_find (c # cs) sub =
     (if prefix sub (c # cs) then 0
      else (let r = str_find cs sub in if r = - 1 then - 1 else r + 1))"

definition open_data_url :: "'r env \<Rightarrow> string \<Rightarrow> world \<Rightarrow> ndarray option outcome \<times> world" where
  "open_data_url E data w =
     (let pos = str_find data ''base64,'' in
      if pos = - 1 then (Raises (IOError (''data url is invalid, head '' @ take 20 data)), w)
      else
        (let pos = pos + int (length ''base64,'') in
         case base64_decodestring E (drop (nat pos) data) of
           Inl e \<Rightarrow> (Raises e, w)
         | Inr raw_data \<Rightarrow>
             (case cv2_imdecode E raw_data of
                Inl e \<Rightarrow> (Raises e, w)
              | Inr img \<Rightarrow> (Returns img, w))))"

definition open_image_url :: "'r env \<Rightarrow> string \<Rightarrow> world \<Rightarrow> ndarray option outcome \<times> world" where
  "open_image_url E url w =
     (let w1 = log_event (HttpGet url) w in
      case requests_get E url of
        Inl e \<Rightarrow> (Raises e, w1)
      | Inr content \<Rightarrow>
          (case cv2_imdecode E content of
             Inl e \<Rightarrow> (Raises e, w1)
           | Inr img \<Rightarrow> (Returns img, w1)))"

text \<open>
  \<^verbatim>\<open>imread\<close> returns an image, or \<^verbatim>\<open>None\<close> where the helper it calls returns
  what \<^verbatim>\<open>cv2.imdecode\<close> gave.
\<close>

fun imread :: "'r env \<Rightarrow> reference \<Rightarrow> world \<Rightarrow> ndarray option outcome \<times> world" where
  "imread E (NdArray a) w = (Returns (Some a), w)"
| "imread E (PilImage p) w = (Returns (Some (pil2cv p)), w)"
| "imread E (Str data) w =
     (if prefix ''data:image/'' data then open_data_url E data w
      else if prefix ''http://'' data \<or> prefix ''https://'' data then open_image_url E data w
      else
        (let w1 = log_event (IsFile data) w in
         if os_path_isfile E data then
           (let w2 = log_event (Cv2Imread data) w1 in
            case cv2_imread E data of
              None \<Rightarrow> (Raises (IOError (''Image format error: '' @ data)), w2)
            | Some im \<Rightarrow> (Returns (Some im), w2))
         else (Raises (IOError (''image read invalid data: '' @ data)), w1)))"

subsection \<open>The class ImageX\<close>

definition send_click :: "'r env \<Rightarrow> int \<Rightarrow> int \<Rightarrow> world \<Rightarrow> 'r outcome \<times> world" where
  "send_click E x y w =
     (case d_click E x y of Inl e \<Rightarrow> Raises e | Inr r \<Rightarrow> Returns r, log_event (Click x y) w)"

definition match :: "'r env \<Rightarrow> reference \<Rightarrow> world \<Rightarrow> match_result outcome \<times> world" where
  "match E imdata w =
     (case imread E imdata w of
        (Raises e, w1) \<Rightarrow> (Raises e, w1)
      | (Unscripted, w1) \<Rightarrow> (Unscripted, w1)
      | (Returns cvimage, w1) \<Rightarrow>
          (let w2 = log_event LoadTemplate w1 in
           case fi_load_template E cvimage of
             Some e \<Rightarrow> (Raises e, w2)
           | None \<Rightarrow>
               (case d_screenshot w2 of
                  (Raises e, w3) \<Rightarrow> (Raises e, w3)
                | (Unscripted, w3) \<Rightarrow> (Unscripted, w3)
                | (Returns target, w3) \<Rightarrow>
                    (let w4 = log_event Find w3 in
                     case fi_find E cvimage target of
                       Inl e \<Rightarrow> (Raises e, w4)
                     | Inr result \<Rightarrow>
                         (let target_sim = target_sim result in
                          (Returns \<lparr>similarity = target_sim, point = target_point result\<rparr>,
                           w4))))))"

text \<open>
  The loop of \<^verbatim>\<open>__wait\<close>. Only \<^verbatim>\<open>d.screenshot\<close> consumes an answer of the
  device, and a cycle that goes round again has taken a screenshot, so the loop ends
  at the latest when the answers do.
\<close>

lemma screens_log_event [simp]: "screens (log_event ev w) = screens w"
  by (simp add: log_event_def)

lemma screens_imread: "imread E imdata w = (r, w') \<Longrightarrow> screens w' = screens w"
  by (cases imdata)
     (auto simp: open_data_url_def open_image_url_def Let_def
           split: if_splits sum.splits option.splits)

lemma screens_d_screenshot:
  "d_screenshot w = (Returns frame, w') \<Longrightarrow> length (screens w') < length (screens w)"
  by (auto simp: d_screenshot_def split: list.splits sum.splits)

lemma screens_match:
  "match E imdata w = (Returns m, w') \<Longrightarrow> length (screens w') < length (screens w)"
  by (auto simp: match_def Let_def split: prod.splits outcome.splits option.splits sum.splits
           dest!: screens_imread screens_d_screenshot)

function private_wait_loop ::
  "'r env \<Rightarrow> reference \<Rightarrow> rat \<Rightarrow> rat \<Rightarrow> world \<Rightarrow> match_result option outcome \<times> world" where
  "private_wait_loop E imdata deadline threshold w =
     (case time_time w of (t, w1) \<Rightarrow>
      if t < deadline then
        (case match E imdata w1 of
           (Raises e, w2) \<Rightarrow> (Raises e, w2)
         | (Unscripted, w2) \<Rightarrow> (Unscripted, w2)
         | (Returns m, w2) \<Rightarrow>
             (let sim = similarity m in
              case time_time w2 of (left_from, w3) \<Rightarrow>
                if py_lt sim threshold then private_wait_loop E imdata deadline threshold w3
                else (Returns (Some m), time_sleep 0.1 w3)))
      else (Returns None, w1))"
  by pat_completeness auto
termination
  apply (relation "measure (\<lambda>(E, imdata, deadline, threshold, w). length (screens w))")
   apply simp
  apply (auto simp: time_time_def dest!: screens_match [OF sym])
  done

declare private_wait_loop.simps [simp del]

text \<open>\<^verbatim>\<open>ImageX.__wait\<close>: the deadline is computed, then the loop runs.\<close>

definition private_wait ::
  "'r env \<Rightarrow> reference \<Rightarrow> rat \<Rightarrow> rat \<Rightarrow> world \<Rightarrow> match_result option outcome \<times> world" where
  "private_wait E imdata timeout threshold w =
     (case time_time w of (t, w1) \<Rightarrow>
        (let deadline = t + timeout in private_wait_loop E imdata deadline threshold w1))"

definition wait ::
  "'r env \<Rightarrow> reference \<Rightarrow> rat \<Rightarrow> world \<Rightarrow> match_result option outcome \<times> world" where
  "wait E imdata timeout w =
     (case private_wait E imdata timeout 0.8 w of
        (Raises e, w1) \<Rightarrow> (Raises e, w1)
      | (Unscripted, w1) \<Rightarrow> (Unscripted, w1)
      | (Returns m, w1) \<Rightarrow>
          (if m = None then (Returns m, w1)
           else private_wait E imdata timeout 0.9 w1))"

definition click :: "'r env \<Rightarrow> reference \<Rightarrow> rat \<Rightarrow> world \<Rightarrow> 'r outcome \<times> world" where
  "click E imdata timeout w =
     (case wait E imdata timeout w of
        (Raises e, w1) \<Rightarrow> (Raises e, w1)
      | (Unscripted, w1) \<Rightarrow> (Unscripted, w1)
      | (Returns res, w1) \<Rightarrow>
          (case res of
             None \<Rightarrow> (Raises (RuntimeError ''image object not found''), w1)
           | Some r \<Rightarrow> (case point r of (x, y) \<Rightarrow> send_click E x y w1)))"

subsection \<open>Observing the trace\<close>

text \<open>
  The events of a poll cycle (everything but a sleep and a click), the sleeps and the
  clicks.
\<close>

fun poll_event :: "event \<Rightarrow> bool" where
  "poll_event (Sleep secs) = False"
| "poll_event (Click x y) = False"
| "poll_event ev = True"

fun is_sleep :: "event \<Rightarrow> bool" where
  "is_sleep (Sleep secs) = True"
| "is_sleep ev = False"

fun is_click :: "event \<Rightarrow> bool" where
  "is_click (Click x y) = True"
| "is_click ev = False"

subsection \<open>A laboratory: concrete libraries and a concrete device\<close>

text \<open>
  A matcher that scores a one-sample frame \<open>[[[n]]]\<close> with \<open>n / 100\<close> and any
  other frame with NaN, a network
  with one image and one text file, a file system with the same two files, and a
  device whose click returns a string. The runs below start at time 1000.
\<close>

definition lab_score :: "ndarray \<Rightarrow> pyfloat" where
  "lab_score frame = (case frame of [[[n]]] \<Rightarrow> Finite (rat_of_nat n / 100) | _ \<Rightarrow> NaN)"

definition lab_env :: "string env" where
  "lab_env =
     \<lparr>base64_decodestring =
        (\<lambda>s. Inl (LibraryError ''TypeError: expected bytes-like object, not str'')),
      cv2_imdecode = (\<lambda>bs. if bs = [137, 80, 78, 71] then Inr (Some [[[7, 8, 9]]]) else Inr None),
      requests_get =
        (\<lambda>url. if url = ''http://host/t.png'' then Inr [137, 80, 78, 71]
               else if url = ''https://host/notes.txt'' then Inr [104, 105]
               else Inl (LibraryError ''requests.ConnectionError'')),
      os_path_isfile = (\<lambda>p. p = ''t.png'' \<or> p = ''notes.txt''),
      cv2_imread = (\<lambda>p. if p = ''t.png'' then Some [[[7, 8, 9]]] else None),
      fi_load_template =
        (\<lambda>t. case t of None \<Rightarrow> Some (LibraryError ''AssertionError'') | Some a \<Rightarrow> None),
      fi_find = (\<lambda>t frame. Inr \<lparr>target_sim = lab_score frame, target_point = (10, 20)\<rparr>),
      d_click = (\<lambda>x y. Inr ''clicked'')\<rparr>"

definition lab_world :: "(rat \<times> (error + ndarray)) list \<Rightarrow> world" where
  "lab_world script = \<lparr>now = 1000, screens = script, trace = []\<rparr>"

section \<open>Properties\<close>

subsection \<open>One cycle of the loop\<close>

lemma trace_log_event [simp]: "trace (log_event ev w) = trace w @ [ev]"
  by (simp add: log_event_def)

lemma now_log_event [simp]: "now (log_event ev w) = now w"
  by (simp add: log_event_def)


lemma loop_timeout:
  "\<not> now w < deadline \<Longrightarrow>
   private_wait_loop E imdata deadline threshold w = (Returns None, log_event TimeTime w)"
  by (subst private_wait_loop.simps) (simp add: time_time_def)

lemma loop_raises:
  "now w < deadline \<Longrightarrow> match E imdata (log_event TimeTime w) = (Raises e, w2) \<Longrightarrow>
   private_wait_loop E imdata deadline threshold w = (Raises e, w2)"
  by (subst private_wait_loop.simps) (simp add: time_time_def)

lemma loop_unscripted:
  "now w < deadline \<Longrightarrow> match E imdata (log_event TimeTime w) = (Unscripted, w2) \<Longrightarrow>
   private_wait_loop E imdata deadline threshold w = (Unscripted, w2)"
  by (subst private_wait_loop.simps) (simp add: time_time_def)

lemma loop_retry:
  "now w < deadline \<Longrightarrow> match E imdata (log_event TimeTime w) = (Returns m, w2) \<Longrightarrow>
   py_lt (similarity m) threshold \<Longrightarrow>
   private_wait_loop E imdata deadline threshold w =
   private_wait_loop E imdata deadline threshold (log_event TimeTime w2)"
  by (subst private_wait_loop.simps) (simp add: time_time_def)

lemma loop_found:
  "now w < deadline \<Longrightarrow> match E imdata (log_event TimeTime w) = (Returns m, w2) \<Longrightarrow>
   \<not> py_lt (similarity m) threshold \<Longrightarrow>
   private_wait_loop E imdata deadline threshold w =
   (Returns (Some m), time_sleep (1 / 10) (log_event TimeTime w2))"
  by (subst private_wait_loop.simps) (simp add: time_time_def)

text \<open>Induction over the cycles of the loop.\<close>

lemma loop_cycles [consumes 1, case_names timeout raises unscripted found retry]:
  assumes run: "private_wait_loop E imdata deadline threshold w = (r, w')"
    and timeout: "\<And>w. \<not> now w < deadline \<Longrightarrow> P w (Returns None) (log_event TimeTime w)"
    and raises: "\<And>w e w2. now w < deadline \<Longrightarrow>
        match E imdata (log_event TimeTime w) = (Raises e, w2) \<Longrightarrow> P w (Raises e) w2"
    and unscripted: "\<And>w w2. now w < deadline \<Longrightarrow>
        match E imdata (log_event TimeTime w) = (Unscripted, w2) \<Longrightarrow> P w Unscripted w2"
    and found: "\<And>w m w2. now w < deadline \<Longrightarrow>
        match E imdata (log_event TimeTime w) = (Returns m, w2) \<Longrightarrow>
        \<not> py_lt (similarity m) threshold \<Longrightarrow>
        P w (Returns (Some m)) (time_sleep (1 / 10) (log_event TimeTime w2))"
    and retry: "\<And>w m w2 r w'. now w < deadline \<Longrightarrow>
        match E imdata (log_event TimeTime w) = (Returns m, w2) \<Longrightarrow>
        py_lt (similarity m) threshold \<Longrightarrow>
        private_wait_loop E imdata deadline threshold (log_event TimeTime w2) = (r, w') \<Longrightarrow>
        P (log_event TimeTime w2) r w' \<Longrightarrow> P w r w'"
  shows "P w r w'"
  using assms
proof (induction E imdata deadline threshold w arbitrary: r w' rule: private_wait_loop.induct)
  case (1 E imdata deadline threshold w)
  note run = "1.prems"(1) and timeout = "1.prems"(2) and raises = "1.prems"(3)
    and unscripted = "1.prems"(4) and found = "1.prems"(5) and retry = "1.prems"(6)
  show ?case
  proof (cases "now w < deadline")
    case False
    with run timeout show ?thesis by (auto simp: loop_timeout)
  next
    case True
    obtain r2 w2 where m: "match E imdata (log_event TimeTime w) = (r2, w2)"
      by (cases "match E imdata (log_event TimeTime w)")
    show ?thesis
    proof (cases r2)
      case (Raises e)
      with True m run raises show ?thesis by (auto simp: loop_raises)
    next
      case Unscripted
      with True m run unscripted show ?thesis by (auto simp: loop_unscripted)
    next
      case (Returns mr)
      show ?thesis
      proof (cases "py_lt (similarity mr) threshold")
        case False
        with True m Returns run found show ?thesis by (auto simp: loop_found)
      next
        case low: True
        from True m Returns low run
        have run': "private_wait_loop E imdata deadline threshold (log_event TimeTime w2) = (r, w')"
          by (simp add: loop_retry)
        have tt: "(now w, log_event TimeTime w) = time_time w"
          by (simp add: time_time_def)
        have mm: "(r2, w2) = match E imdata (log_event TimeTime w)"
          by (simp add: m)
        have tt2: "(now w2, log_event TimeTime w2) = time_time w2"
          by (simp add: time_time_def)
        have "P (log_event TimeTime w2) r w'"
          by (rule "1.IH" [OF tt True mm Returns refl tt2 low run' timeout raises unscripted found retry])
        with True m Returns low run' retry show ?thesis by blast
      qed
    qed
  qed
qed



lemma private_wait_loop_eq:
  "private_wait E imdata timeout threshold w =
   private_wait_loop E imdata (now w + timeout) threshold (log_event TimeTime w)"
  by (simp add: private_wait_def time_time_def)


lemma wait_cases:
  "wait E imdata timeout w =
     (case private_wait E imdata timeout (8 / 10) w of
        (Returns (Some m1), w1) \<Rightarrow> private_wait E imdata timeout (9 / 10) w1
      | other \<Rightarrow> other)"
  by (auto simp: wait_def split: prod.splits outcome.splits option.splits)

subsection \<open>Events a call adds to the trace\<close>

lemma imread_filter:
  assumes "\<And>e. poll_event e \<Longrightarrow> \<not> P e" and "imread E imdata w = (r, w')"
  shows "filter P (trace w') = filter P (trace w)"
  using assms
  by (cases imdata)
     (auto simp: open_data_url_def open_image_url_def Let_def
           split: if_splits sum.splits option.splits)

lemma d_screenshot_filter:
  assumes "\<And>e. poll_event e \<Longrightarrow> \<not> P e" and "d_screenshot w = (r, w')"
  shows "filter P (trace w') = filter P (trace w)"
  using assms by (auto simp: d_screenshot_def split: list.splits)

lemma match_filter:
  assumes quiet: "\<And>e. poll_event e \<Longrightarrow> \<not> P e" and run: "match E imdata w = (r, w')"
  shows "filter P (trace w') = filter P (trace w)"
proof -
  obtain r1 w1 where i: "imread E imdata w = (r1, w1)"
    by (cases "imread E imdata w")
  have t1: "filter P (trace w1) = filter P (trace w)"
    using quiet i by (rule imread_filter)
  obtain r3 w3 where s: "d_screenshot (log_event LoadTemplate w1) = (r3, w3)"
    by (cases "d_screenshot (log_event LoadTemplate w1)")
  have t3: "filter P (trace w3) = filter P (trace w1)"
    using d_screenshot_filter [OF quiet s] quiet [of LoadTemplate] by simp
  from run i s t1 t3 quiet [of LoadTemplate] quiet [of Find] show ?thesis
    by (auto simp: match_def Let_def split: outcome.splits option.splits sum.splits)
qed

lemma loop_filter:
  assumes run: "private_wait_loop E imdata deadline threshold w = (r, w')"
    and quiet: "\<And>e. poll_event e \<Longrightarrow> \<not> P e"
  shows "filter P (trace w') =
         filter P (trace w) @ (case r of Returns (Some m) \<Rightarrow> filter P [Sleep (1 / 10)] | _ \<Rightarrow> [])"
  using run
proof (induction rule: loop_cycles)
  case (timeout w)
  from quiet [of TimeTime] show ?case by simp
next
  case (raises w e w2)
  from match_filter [OF quiet raises(2)] quiet [of TimeTime] show ?case by simp
next
  case (unscripted w w2)
  from match_filter [OF quiet unscripted(2)] quiet [of TimeTime] show ?case by simp
next
  case (found w m w2)
  from match_filter [OF quiet found(2)] quiet [of TimeTime] show ?case
    by (simp add: time_sleep_def)
next
  case (retry w m w2 r w')
  from match_filter [OF quiet retry(2)] quiet [of TimeTime] retry(5) show ?case by simp
qed

lemma private_wait_filter:
  assumes run: "private_wait E imdata timeout threshold w = (r, w')"
    and quiet: "\<And>e. poll_event e \<Longrightarrow> \<not> P e"
  shows "filter P (trace w') =
         filter P (trace w) @ (case r of Returns (Some m) \<Rightarrow> filter P [Sleep (1 / 10)] | _ \<Rightarrow> [])"
  using loop_filter [OF run [unfolded private_wait_loop_eq] quiet] quiet [of TimeTime]
  by simp

lemma is_click_quiet: "poll_event e \<Longrightarrow> \<not> is_click e"
  by (cases e) simp_all

lemma is_sleep_quiet: "poll_event e \<Longrightarrow> \<not> is_sleep e"
  by (cases e) simp_all

lemma wait_clicks:
  assumes "wait E imdata timeout w = (r, w')"
  shows "filter is_click (trace w') = filter is_click (trace w)"
proof -
  obtain r1 w1 where t1: "private_wait E imdata timeout (8 / 10) w = (r1, w1)"
    by (cases "private_wait E imdata timeout (8 / 10) w")
  have c1: "filter is_click (trace w1) = filter is_click (trace w)"
    using private_wait_filter [OF t1, of is_click] is_click_quiet
    by (auto split: outcome.splits option.splits)
  show ?thesis
  proof (cases "\<exists>m1. r1 = Returns (Some m1)")
    case False
    with assms t1 c1 show ?thesis
      by (auto simp: wait_cases split: outcome.splits option.splits)
  next
    case True
    with assms t1 have t2: "private_wait E imdata timeout (9 / 10) w1 = (r, w')"
      by (auto simp: wait_cases)
    have "filter is_click (trace w') = filter is_click (trace w1)"
      using private_wait_filter [OF t2, of is_click] is_click_quiet
      by (auto split: outcome.splits option.splits)
    with c1 show ?thesis by simp
  qed
qed

subsection \<open>Reading an image: the order of the cases\<close>

text \<open>
  Claim C5. \<^verbatim>\<open>imread\<close> tests its argument in a fixed order and the first case that
  matches decides: an array or a pillow image is returned (the latter converted)
  without any external call; a string that starts with \<^verbatim>\<open>data:image/\<close> goes to
  \<^verbatim>\<open>_open_data_url\<close> and leaves the trace as it was, so neither the network nor the
  file system is asked; otherwise a string that starts with \<^verbatim>\<open>http://\<close> or
  \<^verbatim>\<open>https://\<close> goes to \<^verbatim>\<open>_open_image_url\<close>, whose only call is the fetch;
  otherwise the file system is asked, and an existing file is read with
  \<^verbatim>\<open>cv2.imread\<close>; a string that matches none of the cases raises
  \<^verbatim>\<open>IOError("image read invalid data: ...")\<close>.
\<close>

theorem imread_dispatch_order:
  "imread E (NdArray a) w = (Returns (Some a), w)
   \<and> imread E (PilImage p) w = (Returns (Some (pil2cv p)), w)
   \<and> (prefix ''data:image/'' data \<longrightarrow>
        imread E (Str data) w = open_data_url E data w \<and> snd (imread E (Str data) w) = w)
   \<and> (\<not> prefix ''data:image/'' data \<and> (prefix ''http://'' data \<or> prefix ''https://'' data) \<longrightarrow>
        imread E (Str data) w = open_image_url E data w
        \<and> snd (imread E (Str data) w) = log_event (HttpGet data) w)
   \<and> (\<not> prefix ''data:image/'' data \<and> \<not> prefix ''http://'' data \<and> \<not> prefix ''https://'' data
        \<and> os_path_isfile E data \<longrightarrow>
        imread E (Str data) w =
          (case cv2_imread E data of
             None \<Rightarrow> Raises (IOError (''Image format error: '' @ data))
           | Some im \<Rightarrow> Returns (Some im),
           log_event (Cv2Imread data) (log_event (IsFile data) w)))
   \<and> (\<not> prefix ''data:image/'' data \<and> \<not> prefix ''http://'' data \<and> \<not> prefix ''https://'' data
        \<and> \<not> os_path_isfile E data \<longrightarrow>
        imread E (Str data) w =
          (Raises (IOError (''image read invalid data: '' @ data)), log_event (IsFile data) w))"
  by (auto simp: open_data_url_def open_image_url_def Let_def split: sum.splits option.splits)

theorem imread_dispatch_order_witness:
  "imread lab_env (NdArray [[[1, 2, 3]]]) (lab_world []) = (Returns (Some [[[1, 2, 3]]]), lab_world [])
   \<and> imread lab_env (PilImage [[[1, 2, 3]]]) (lab_world []) = (Returns (Some [[[3, 2, 1]]]), lab_world [])
   \<and> imread lab_env (Str ''data:image/png;base64,iVBORw=='') (lab_world []) =
       (Raises (LibraryError ''TypeError: expected bytes-like object, not str''), lab_world [])
   \<and> imread lab_env (Str ''http://host/t.png'') (lab_world []) =
       (Returns (Some [[[7, 8, 9]]]), log_event (HttpGet ''http://host/t.png'') (lab_world []))
   \<and> imread lab_env (Str ''t.png'') (lab_world []) =
       (Returns (Some [[[7, 8, 9]]]),
        log_event (Cv2Imread ''t.png'') (log_event (IsFile ''t.png'') (lab_world [])))
   \<and> imread lab_env (Str ''missing.png'') (lab_world []) =
       (Raises (IOError ''image read invalid data: missing.png''),
        log_event (IsFile ''missing.png'') (lab_world []))"
proof -
  note d = imread_dispatch_order [where E = lab_env and w = "lab_world []"]
  have "imread lab_env (Str ''data:image/png;base64,iVBORw=='') (lab_world []) =
        open_data_url lab_env ''data:image/png;base64,iVBORw=='' (lab_world [])"
    using d [where data = "''data:image/png;base64,iVBORw==''"] by simp
  moreover have "imread lab_env (Str ''http://host/t.png'') (lab_world []) =
        open_image_url lab_env ''http://host/t.png'' (lab_world [])"
    using d [where data = "''http://host/t.png''"] by simp
  moreover have "imread lab_env (Str ''t.png'') (lab_world []) =
        (case cv2_imread lab_env ''t.png'' of
           None \<Rightarrow> Raises (IOError (''Image format error: '' @ ''t.png''))
         | Some im \<Rightarrow> Returns (Some im),
         log_event (Cv2Imread ''t.png'') (log_event (IsFile ''t.png'') (lab_world [])))"
    using d [where data = "''t.png''"] by (simp add: lab_env_def)
  moreover have "imread lab_env (Str ''missing.png'') (lab_world []) =
        (Raises (IOError (''image read invalid data: '' @ ''missing.png'')),
         log_event (IsFile ''missing.png'') (lab_world []))"
    using d [where data = "''missing.png''"] by (simp add: lab_env_def)
  ultimately show ?thesis
    using d [where a = "[[[1, 2, 3]]]" and p = "[[[1, 2, 3]]]"]
    by (simp add: lab_env_def open_data_url_def open_image_url_def pil2cv_def)
qed

subsection \<open>Bytes that are no image\<close>

text \<open>
  Claim C6 asks that bytes which are no image make \<^verbatim>\<open>imread\<close> fail. The code does
  so only for a file. For a URL whose fetch succeeds, \<^verbatim>\<open>imread\<close> returns whatever
  \<^verbatim>\<open>cv2.imdecode\<close> returns, and that is \<^verbatim>\<open>None\<close> for such bytes: the call
  returns \<^verbatim>\<open>None\<close> and raises nothing. For a data URL the bytes are never
  reached: \<^verbatim>\<open>base64.decodestring\<close> raises on the \<^verbatim>\<open>str\<close> it is given, and
  \<^verbatim>\<open>imread\<close> raises that error.
\<close>

theorem imread_undecodable_bytes:
  "(\<not> prefix ''data:image/'' url \<and> (prefix ''http://'' url \<or> prefix ''https://'' url)
      \<and> requests_get E url = Inr content \<and> cv2_imdecode E content = Inr None \<longrightarrow>
      imread E (Str url) w = (Returns None, log_event (HttpGet url) w))
   \<and> (prefix ''data:image/'' data \<and> str_find data ''base64,'' \<noteq> - 1
      \<and> base64_decodestring E (drop (nat (str_find data ''base64,'' + 7)) data) = Inl e \<longrightarrow>
      imread E (Str data) w = (Raises e, w))"
  by (simp add: open_data_url_def open_image_url_def Let_def)

theorem imread_undecodable_bytes_witness:
  "imread lab_env (Str ''https://host/notes.txt'') (lab_world []) =
     (Returns None, log_event (HttpGet ''https://host/notes.txt'') (lab_world []))
   \<and> imread lab_env (Str ''data:image/png;base64,aGk='') (lab_world []) =
     (Raises (LibraryError ''TypeError: expected bytes-like object, not str''), lab_world [])"
  using imread_undecodable_bytes [where E = lab_env and url = "''https://host/notes.txt''"
      and content = "[104, 105]" and data = "''data:image/png;base64,aGk=''"
      and e = "LibraryError ''TypeError: expected bytes-like object, not str''"
      and w = "lab_world []"]
  by (simp add: lab_env_def)

subsection \<open>File system paths\<close>

text \<open>
  Against claim C7 as it is stated: a path that names no file gets no error of its
  own. It falls through every case and raises the same
  \<^verbatim>\<open>IOError("image read invalid data: ...")\<close> as any other string that matches no
  case.
\<close>

theorem imread_missing_file_counterexample:
  "\<not> os_path_isfile lab_env ''missing.png''
   \<and> fst (imread lab_env (Str ''missing.png'') (lab_world [])) =
       Raises (IOError ''image read invalid data: missing.png'')
   \<and> fst (imread lab_env (Str ''no reference at all'') (lab_world [])) =
       Raises (IOError ''image read invalid data: no reference at all'')"
  by (simp add: lab_env_def)

text \<open>
  Claim C7, amended. For a string that is neither a data URL nor an http(s) URL: an
  existing file that \<^verbatim>\<open>cv2.imread\<close> cannot decode raises
  \<^verbatim>\<open>IOError("Image format error: <path>")\<close>; a path that names no file raises
  \<^verbatim>\<open>IOError("image read invalid data: <path>")\<close>, the error of a reference that
  matches no case; the two errors differ.
\<close>

theorem imread_filesystem_path:
  "\<not> prefix ''data:image/'' path \<and> \<not> prefix ''http://'' path \<and> \<not> prefix ''https://'' path \<longrightarrow>
     (os_path_isfile E path \<and> cv2_imread E path = None \<longrightarrow>
        fst (imread E (Str path) w) = Raises (IOError (''Image format error: '' @ path)))
     \<and> (\<not> os_path_isfile E path \<longrightarrow>
        fst (imread E (Str path) w) = Raises (IOError (''image read invalid data: '' @ path)))
     \<and> IOError (''Image format error: '' @ path) \<noteq> IOError (''image read invalid data: '' @ path)"
  by simp

theorem imread_filesystem_path_witness:
  "fst (imread lab_env (Str ''notes.txt'') (lab_world [])) =
     Raises (IOError ''Image format error: notes.txt'')
   \<and> fst (imread lab_env (Str ''missing.png'') (lab_world [])) =
     Raises (IOError ''image read invalid data: missing.png'')"
  using imread_filesystem_path [where E = lab_env and path = "''notes.txt''" and w = "lab_world []"]
    imread_filesystem_path [where E = lab_env and path = "''missing.png''" and w = "lab_world []"]
  by (simp add: lab_env_def)

subsection \<open>Runs in the laboratory\<close>

text \<open>The definitions a concrete run unfolds.\<close>

lemmas lab_run =
  wait_def private_wait_def private_wait_loop.simps match_def time_time_def time_sleep_def
  log_event_def d_screenshot_def lab_env_def lab_world_def lab_score_def open_image_url_def
  open_data_url_def click_def send_click_def

subsection \<open>The wait: two tiers\<close>




subsection \<open>One poll cycle\<close>

text \<open>
  Claim C2. \<^verbatim>\<open>__wait\<close> computes the deadline once, as the clock plus the timeout,
  and the loop keeps it. A cycle that starts at or after the deadline ends the tier
  without a result. A cycle that starts before it and scores below the threshold goes
  straight to the next cycle, with the same deadline and without a sleep. A cycle
  whose score is not below the threshold (at least the threshold, or NaN) sleeps 0.1
  seconds and returns that cycle's result.
  Over a whole tier the trace gains exactly one sleep of 0.1 seconds when a result is
  returned and none otherwise.
\<close>

theorem poll_cycle:
  "private_wait E imdata timeout threshold w =
     private_wait_loop E imdata (now w + timeout) threshold (log_event TimeTime w)
   \<and> (\<not> now w < deadline \<longrightarrow>
        private_wait_loop E imdata deadline threshold w = (Returns None, log_event TimeTime w))
   \<and> (now w < deadline \<and> match E imdata (log_event TimeTime w) = (Returns m, w2)
        \<and> py_lt (similarity m) threshold \<longrightarrow>
        private_wait_loop E imdata deadline threshold w =
        private_wait_loop E imdata deadline threshold (log_event TimeTime w2))
   \<and> (now w < deadline \<and> match E imdata (log_event TimeTime w) = (Returns m, w2)
        \<and> \<not> py_lt (similarity m) threshold \<longrightarrow>
        private_wait_loop E imdata deadline threshold w =
        (Returns (Some m), time_sleep (1 / 10) (log_event TimeTime w2)))
   \<and> (private_wait_loop E imdata deadline threshold w = (r, w') \<longrightarrow>
        filter is_sleep (trace w') =
        filter is_sleep (trace w) @ (case r of Returns (Some m') \<Rightarrow> [Sleep (1 / 10)] | _ \<Rightarrow> []))"
proof -
  have "filter is_sleep (trace w') =
        filter is_sleep (trace w) @ (case r of Returns (Some m') \<Rightarrow> [Sleep (1 / 10)] | _ \<Rightarrow> [])"
    if run: "private_wait_loop E imdata deadline threshold w = (r, w')"
    using loop_filter [OF run, of is_sleep] is_sleep_quiet
    by (auto split: outcome.splits option.splits)
  then show ?thesis
    by (simp add: private_wait_loop_eq loop_timeout loop_retry loop_found)
qed

theorem poll_cycle_witness:
  "private_wait_loop lab_env (Str ''t.png'') 1000 (9 / 10) (lab_world []) =
     (Returns None, log_event TimeTime (lab_world []))
   \<and> private_wait_loop lab_env (Str ''t.png'') 1001 (9 / 10)
       (lab_world [(1 / 2, Inr [[[50]]]), (1 / 2, Inr [[[95]]])]) =
     private_wait_loop lab_env (Str ''t.png'') 1001 (9 / 10)
       \<lparr>now = 1000 + 1 / 2, screens = [(1 / 2, Inr [[[95]]])],
        trace = [TimeTime, IsFile ''t.png'', Cv2Imread ''t.png'', LoadTemplate, Screenshot, Find,
                 TimeTime]\<rparr>
   \<and> private_wait_loop lab_env (Str ''t.png'') 1001 (9 / 10) (lab_world [(1 / 2, Inr [[[95]]])]) =
     (Returns (Some \<lparr>similarity = Finite (95 / 100), point = (10, 20)\<rparr>),
      \<lparr>now = 1000 + 1 / 2 + 1 / 10, screens = [],
       trace = [TimeTime, IsFile ''t.png'', Cv2Imread ''t.png'', LoadTemplate, Screenshot, Find,
                TimeTime, Sleep (1 / 10)]\<rparr>)
   \<and> filter is_sleep (trace (snd (private_wait_loop lab_env (Str ''t.png'') 1001 (9 / 10)
       (lab_world [(1 / 2, Inr [[[50]]]), (1 / 2, Inr [[[95]]])])))) = [Sleep (1 / 10)]
   \<and> filter is_sleep (trace (snd (private_wait_loop lab_env (Str ''t.png'') 1001 (9 / 10)
       (lab_world [(1 / 2, Inr [[[50]]]), (1 / 2, Inr [[[50]]]), (1 / 2, Inr [[[95]]])])))) = []"
proof -
  let ?im = "Str ''t.png''"
  let ?m50 = "\<lparr>similarity = Finite (50 / 100), point = (10, 20)\<rparr>"
  let ?m95 = "\<lparr>similarity = Finite (95 / 100), point = (10, 20)\<rparr>"
  let ?cycle = "[TimeTime, IsFile ''t.png'', Cv2Imread ''t.png'', LoadTemplate, Screenshot, Find]"
  let ?wa = "lab_world [(1 / 2, Inr [[[50]]]), (1 / 2, Inr [[[95]]])]"
  let ?wa2 = "\<lparr>now = 1000 + 1 / 2, screens = [(1 / 2, Inr [[[95]]])], trace = ?cycle\<rparr>"
  let ?wb = "lab_world [(1 / 2, Inr [[[95]]])]"
  let ?wb2 = "\<lparr>now = 1000 + 1 / 2, screens = [], trace = ?cycle\<rparr>"
  let ?wc = "lab_world [(1 / 2, Inr [[[50]]]), (1 / 2, Inr [[[50]]]), (1 / 2, Inr [[[95]]])]"
  have ma: "match lab_env ?im (log_event TimeTime ?wa) = (Returns ?m50, ?wa2)"
    by (simp add: match_def log_event_def d_screenshot_def lab_env_def lab_world_def lab_score_def)
  have mb: "match lab_env ?im (log_event TimeTime ?wb) = (Returns ?m95, ?wb2)"
    by (simp add: match_def log_event_def d_screenshot_def lab_env_def lab_world_def lab_score_def)
  let ?waF = "\<lparr>now = 1000 + 1 / 2 + 1 / 2 + 1 / 10, screens = [],
        trace = ?cycle @ [TimeTime] @ ?cycle @ [TimeTime, Sleep (1 / 10)]\<rparr>"
  let ?wcF = "\<lparr>now = 1000 + 1 / 2 + 1 / 2, screens = [(1 / 2, Inr [[[95]]])],
        trace = ?cycle @ [TimeTime] @ ?cycle @ [TimeTime, TimeTime]\<rparr>"
  have ra: "private_wait_loop lab_env ?im 1001 (9 / 10) ?wa = (Returns (Some ?m95), ?waF)"
    by (simp add: lab_run)
  have rc: "private_wait_loop lab_env ?im 1001 (9 / 10) ?wc = (Returns None, ?wcF)"
    by (simp add: lab_run)
  from poll_cycle [of lab_env ?im 0 "9 / 10" "lab_world []" 1000]
  have c2: "private_wait_loop lab_env ?im 1000 (9 / 10) (lab_world []) =
      (Returns None, log_event TimeTime (lab_world []))"
    by (simp add: lab_world_def)
  from poll_cycle [of lab_env ?im 0 "9 / 10" ?wa 1001 ?m50 ?wa2] ma
  have c3: "private_wait_loop lab_env ?im 1001 (9 / 10) ?wa =
      private_wait_loop lab_env ?im 1001 (9 / 10) (log_event TimeTime ?wa2)"
    by (simp add: lab_world_def)
  from poll_cycle [of lab_env ?im 0 "9 / 10" ?wb 1001 ?m95 ?wb2] mb
  have c4: "private_wait_loop lab_env ?im 1001 (9 / 10) ?wb =
      (Returns (Some ?m95), time_sleep (1 / 10) (log_event TimeTime ?wb2))"
    by (simp add: lab_world_def)
  from poll_cycle [of lab_env ?im 0 "9 / 10" ?wa 1001 ?m50 ?wa2 "Returns (Some ?m95)" ?waF] ra
  have "filter is_sleep (trace ?waF) = filter is_sleep (trace ?wa) @ [Sleep (1 / 10)]"
    by simp
  with ra
  have c5: "filter is_sleep (trace (snd (private_wait_loop lab_env ?im 1001 (9 / 10) ?wa))) =
      filter is_sleep (trace ?wa) @ [Sleep (1 / 10)]"
    by simp
  from poll_cycle [of lab_env ?im 0 "9 / 10" ?wc 1001 ?m50 ?wa2 "Returns None" ?wcF] rc
  have "filter is_sleep (trace ?wcF) = filter is_sleep (trace ?wc)"
    by simp
  with rc
  have c6: "filter is_sleep (trace (snd (private_wait_loop lab_env ?im 1001 (9 / 10) ?wc))) =
      filter is_sleep (trace ?wc)"
    by simp
  from c2 c3 c4 c5 c6 show ?thesis
    by (simp add: time_sleep_def log_event_def lab_world_def)
qed

subsection \<open>Clicking\<close>

text \<open>
  Against claim C3 as it is stated: the two outcomes are not all there is. A
  reference that \<^verbatim>\<open>imread\<close> rejects makes \<^verbatim>\<open>click\<close> raise that
  \<^verbatim>\<open>IOError\<close>: the device is not clicked, and the error is not the
  \<^verbatim>\<open>RuntimeError\<close> of a target that was not found.
\<close>

theorem click_propagates_counterexample:
  "click lab_env (Str ''missing.png'') 30 (lab_world [(1 / 2, Inr [[[95]]])]) =
     (Raises (IOError ''image read invalid data: missing.png''),
      \<lparr>now = 1000, screens = [(1 / 2, Inr [[[95]]])],
       trace = [TimeTime, TimeTime, IsFile ''missing.png'']\<rparr>)
   \<and> IOError ''image read invalid data: missing.png'' \<noteq> RuntimeError ''image object not found''"
  by (simp add: lab_run)

text \<open>
  Claim C3, amended. When \<^verbatim>\<open>wait\<close> returns a result, \<^verbatim>\<open>click\<close> calls the
  device's click once, at the matched point, and its outcome is the outcome of that
  call. When \<^verbatim>\<open>wait\<close> returns no result, \<^verbatim>\<open>click\<close> raises
  \<^verbatim>\<open>RuntimeError("image object not found")\<close> and the device is not clicked. When
  \<^verbatim>\<open>wait\<close> itself raises, \<^verbatim>\<open>click\<close> raises the same error and the device is
  not clicked.
\<close>

theorem click_outcomes:
  "(wait E imdata timeout w = (Returns (Some res), w1) \<longrightarrow>
      click E imdata timeout w =
        (case d_click E (fst (point res)) (snd (point res)) of
           Inl e \<Rightarrow> Raises e | Inr r \<Rightarrow> Returns r,
         log_event (Click (fst (point res)) (snd (point res))) w1)
      \<and> filter is_click (trace (snd (click E imdata timeout w))) =
          filter is_click (trace w) @ [Click (fst (point res)) (snd (point res))])
   \<and> (wait E imdata timeout w = (Returns None, w1) \<longrightarrow>
      click E imdata timeout w = (Raises (RuntimeError ''image object not found''), w1)
      \<and> filter is_click (trace w1) = filter is_click (trace w))
   \<and> (wait E imdata timeout w = (Raises e, w1) \<longrightarrow>
      click E imdata timeout w = (Raises e, w1)
      \<and> filter is_click (trace w1) = filter is_click (trace w))
   \<and> (wait E imdata timeout w = (Unscripted, w1) \<longrightarrow>
      click E imdata timeout w = (Unscripted, w1)
      \<and> filter is_click (trace w1) = filter is_click (trace w))"
proof -
  have quiet: "filter is_click (trace w1) = filter is_click (trace w)"
    if "wait E imdata timeout w = (r, w1)" for r
    using that by (rule wait_clicks)
  show ?thesis
    by (auto simp: click_def send_click_def quiet split: prod.splits)
qed

theorem click_outcomes_witness:
  "click lab_env (Str ''t.png'') 30 (lab_world [(1 / 2, Inr [[[85]]]), (1 / 2, Inr [[[95]]])]) =
     (Returns ''clicked'',
      \<lparr>now = 1000 + 1 / 2 + 1 / 10 + 1 / 2 + 1 / 10, screens = [],
       trace = [TimeTime, TimeTime, IsFile ''t.png'', Cv2Imread ''t.png'', LoadTemplate,
                Screenshot, Find, TimeTime, Sleep (1 / 10),
                TimeTime, TimeTime, IsFile ''t.png'', Cv2Imread ''t.png'', LoadTemplate,
                Screenshot, Find, TimeTime, Sleep (1 / 10), Click 10 20]\<rparr>)
   \<and> filter is_click (trace (snd (click lab_env (Str ''t.png'') 30
         (lab_world [(1 / 2, Inr [[[85]]]), (1 / 2, Inr [[[95]]])])))) = [Click 10 20]
   \<and> fst (click lab_env (Str ''t.png'') 30 (lab_world [(40, Inr [[[50]]])])) =
       Raises (RuntimeError ''image object not found'')
   \<and> filter is_click (trace (snd (click lab_env (Str ''t.png'') 30 (lab_world [(40, Inr [[[50]]])])))) = []
   \<and> fst (click lab_env (Str ''missing.png'') 30 (lab_world [(40, Inr [[[50]]])])) =
       Raises (IOError ''image read invalid data: missing.png'')
   \<and> fst (click lab_env (Str ''t.png'') 30 (lab_world [])) = Unscripted"
proof -
  let ?im = "Str ''t.png''"
  let ?m95 = "\<lparr>similarity = Finite (95 / 100), point = (10, 20)\<rparr>"
  let ?Wa = "lab_world [(1 / 2, Inr [[[85]]]), (1 / 2, Inr [[[95]]])]"
  let ?WaF = "\<lparr>now = 1000 + 1 / 2 + 1 / 10 + 1 / 2 + 1 / 10, screens = [],
       trace = [TimeTime, TimeTime, IsFile ''t.png'', Cv2Imread ''t.png'', LoadTemplate,
                Screenshot, Find, TimeTime, Sleep (1 / 10),
                TimeTime, TimeTime, IsFile ''t.png'', Cv2Imread ''t.png'', LoadTemplate,
                Screenshot, Find, TimeTime, Sleep (1 / 10)]\<rparr>"
  let ?Wb = "lab_world [(40, Inr [[[50]]])]"
  have ra: "wait lab_env ?im 30 ?Wa = (Returns (Some ?m95), ?WaF)"
    by (simp add: lab_run)
  obtain WbF where rb: "wait lab_env ?im 30 ?Wb = (Returns None, WbF)"
    by (simp add: lab_run)
  obtain WcF where rc: "wait lab_env (Str ''missing.png'') 30 ?Wb =
      (Raises (IOError ''image read invalid data: missing.png''), WcF)"
    by (simp add: lab_run)
  obtain WdF where rd: "wait lab_env ?im 30 (lab_world []) = (Unscripted, WdF)"
    by (simp add: lab_run)
  from click_outcomes [where E = lab_env and imdata = ?im and timeout = 30 and w = ?Wa
      and res = ?m95 and ?w1.0 = ?WaF and e = "IOError []"] ra
  have ca: "click lab_env ?im 30 ?Wa =
        (case d_click lab_env 10 20 of Inl e \<Rightarrow> Raises e | Inr r \<Rightarrow> Returns r,
         log_event (Click 10 20) ?WaF)
      \<and> filter is_click (trace (snd (click lab_env ?im 30 ?Wa))) =
          filter is_click (trace ?Wa) @ [Click 10 20]"
    by (simp add: lab_world_def)
  from click_outcomes [where E = lab_env and imdata = ?im and timeout = 30 and w = ?Wb
      and res = ?m95 and ?w1.0 = WbF and e = "IOError []"] rb
  have cb: "click lab_env ?im 30 ?Wb = (Raises (RuntimeError ''image object not found''), WbF)
      \<and> filter is_click (trace WbF) = filter is_click (trace ?Wb)"
    by simp
  from click_outcomes [where E = lab_env and imdata = "Str ''missing.png''" and timeout = 30
      and w = ?Wb and res = ?m95 and ?w1.0 = WcF
      and e = "IOError ''image read invalid data: missing.png''"] rc
  have cc: "click lab_env (Str ''missing.png'') 30 ?Wb =
      (Raises (IOError ''image read invalid data: missing.png''), WcF)"
    by simp
  from click_outcomes [where E = lab_env and imdata = ?im and timeout = 30
      and w = "lab_world []" and res = ?m95 and ?w1.0 = WdF and e = "IOError []"] rd
  have cd: "click lab_env ?im 30 (lab_world []) = (Unscripted, WdF)"
    by simp
  from ca cb cc cd show ?thesis
    by (simp add: lab_env_def lab_world_def log_event_def)
qed

subsection \<open>The similarity of a match\<close>

text \<open>
  Against claim C8 as it is stated: \<^verbatim>\<open>match\<close> checks no range. A matcher that
  scores 1.5 gives a result with similarity 1.5, and \<^verbatim>\<open>wait\<close> compares it with
  its thresholds and returns it.
\<close>

theorem match_out_of_range_counterexample:
  "fst (match lab_env (Str ''t.png'') (lab_world [(1 / 2, Inr [[[150]]])])) =
     Returns \<lparr>similarity = Finite (3 / 2), point = (10, 20)\<rparr>
   \<and> \<not> (3 / 2 :: rat) \<le> 1
   \<and> fst (wait lab_env (Str ''t.png'') 30
         (lab_world [(1 / 2, Inr [[[150]]]), (1 / 2, Inr [[[150]]])])) =
     Returns (Some \<lparr>similarity = Finite (3 / 2), point = (10, 20)\<rparr>)"
  by (simp add: lab_run)

text \<open>
  Claim C8, amended. The similarity and the point of the result of \<^verbatim>\<open>match\<close> are
  the \<^verbatim>\<open>target_sim\<close> and the \<^verbatim>\<open>target_point\<close> of the matcher's answer,
  unchanged, whatever their value: \<^verbatim>\<open>match\<close> neither fails nor clamps.
\<close>

theorem match_similarity_unchecked:
  "(imread E imdata w = (Returns cvimage, w1) \<and> fi_load_template E cvimage = None
      \<and> d_screenshot (log_event LoadTemplate w1) = (Returns target, w3)
      \<and> fi_find E cvimage target = Inr result \<longrightarrow>
      match E imdata w =
        (Returns \<lparr>similarity = target_sim result, point = target_point result\<rparr>,
         log_event Find w3))
   \<and> (match E imdata w = (Returns m, w') \<longrightarrow>
      (\<exists>cvimage target result. fi_find E cvimage target = Inr result
         \<and> similarity m = target_sim result \<and> point m = target_point result))"
proof -
  have "\<exists>cvimage target result. fi_find E cvimage target = Inr result
         \<and> similarity m = target_sim result \<and> point m = target_point result"
    if "match E imdata w = (Returns m, w')"
    using that
    by (fastforce simp: match_def Let_def
          split: prod.splits outcome.splits option.splits sum.splits)
  then show ?thesis
    by (simp add: match_def)
qed

theorem match_similarity_unchecked_witness:
  "match lab_env (Str ''t.png'') (lab_world [(1 / 2, Inr [[[150]]])]) =
     (Returns \<lparr>similarity = Finite (3 / 2), point = (10, 20)\<rparr>,
      \<lparr>now = 1000 + 1 / 2, screens = [],
       trace = [IsFile ''t.png'', Cv2Imread ''t.png'', LoadTemplate, Screenshot, Find]\<rparr>)
   \<and> (\<exists>cvimage target result. fi_find lab_env cvimage target = Inr result
         \<and> similarity \<lparr>similarity = Finite (3 / 2), point = (10, 20)\<rparr> = target_sim result
         \<and> point \<lparr>similarity = Finite (3 / 2), point = (10, 20)\<rparr> = target_point result)"
proof -
  let ?w = "lab_world [(1 / 2, Inr [[[150]]])]"
  let ?w1 = "log_event (Cv2Imread ''t.png'') (log_event (IsFile ''t.png'') ?w)"
  let ?w3 = "\<lparr>now = 1000 + 1 / 2, screens = [],
       trace = [IsFile ''t.png'', Cv2Imread ''t.png'', LoadTemplate, Screenshot]\<rparr>"
  let ?result = "\<lparr>target_sim = Finite (3 / 2), target_point = (10, 20)\<rparr>"
  let ?m = "\<lparr>similarity = Finite (3 / 2), point = (10, 20)\<rparr>"
  have i: "imread lab_env (Str ''t.png'') ?w = (Returns (Some [[[7, 8, 9]]]), ?w1)"
    by (simp add: lab_env_def)
  have l: "fi_load_template lab_env (Some [[[7, 8, 9]]]) = None"
    by (simp add: lab_env_def)
  have s: "d_screenshot (log_event LoadTemplate ?w1) = (Returns [[[150]]], ?w3)"
    by (simp add: d_screenshot_def log_event_def lab_world_def)
  have f: "fi_find lab_env (Some [[[7, 8, 9]]]) [[[150]]] = Inr ?result"
    by (simp add: lab_env_def lab_score_def)
  note u = match_similarity_unchecked [where E = lab_env and imdata = "Str ''t.png''" and w = ?w
      and cvimage = "Some [[[7, 8, 9]]]" and ?w1.0 = ?w1 and target = "[[[150]]]" and ?w3.0 = ?w3
      and result = ?result and m = ?m and w' = "log_event Find ?w3"]
  from u i l s f
  have fwd: "match lab_env (Str ''t.png'') ?w = (Returns ?m, log_event Find ?w3)"
    by simp
  with u have "\<exists>cvimage target result. fi_find lab_env cvimage target = Inr result
         \<and> similarity ?m = target_sim result \<and> point ?m = target_point result"
    by blast
  with fwd show ?thesis
    by (simp add: log_event_def)
qed

subsection \<open>A timeout that is zero or negative\<close>

text \<open>
  Claim C9. With a timeout of zero or less, \<^verbatim>\<open>wait\<close> returns no result at once:
  the clock is read twice (for the deadline and for one test of it), nothing else is
  called (no image is read, no screenshot taken, no match scored, no sleep), the
  clock has not moved and the second tier is never entered.
\<close>

theorem wait_nonpositive_timeout:
  "timeout \<le> 0 \<Longrightarrow>
   wait E imdata timeout w = (Returns None, w\<lparr>trace := trace w @ [TimeTime, TimeTime]\<rparr>)"
  by (simp add: wait_def private_wait_loop_eq loop_timeout log_event_def)

theorem wait_nonpositive_timeout_witness:
  "wait lab_env (Str ''t.png'') 0 (lab_world [(1 / 2, Inr [[[95]]])]) =
     (Returns None, \<lparr>now = 1000, screens = [(1 / 2, Inr [[[95]]])], trace = [TimeTime, TimeTime]\<rparr>)
   \<and> wait lab_env (Str ''t.png'') (- 5) (lab_world [(1 / 2, Inr [[[95]]])]) =
     (Returns None, \<lparr>now = 1000, screens = [(1 / 2, Inr [[[95]]])], trace = [TimeTime, TimeTime]\<rparr>)"
  using wait_nonpositive_timeout [of 0 lab_env "Str ''t.png''" "lab_world [(1 / 2, Inr [[[95]]])]"]
    wait_nonpositive_timeout [of "- 5" lab_env "Str ''t.png''" "lab_world [(1 / 2, Inr [[[95]]])]"]
  by (simp add: lab_world_def)

subsection \<open>Where the deadline is tested\<close>

text \<open>How a tier can end: without a result, or with one.\<close>

lemma loop_none_late:
  "private_wait_loop E imdata deadline threshold w = (r, w') \<Longrightarrow>
   r = Returns None \<longrightarrow> (\<exists>ws. deadline \<le> now ws \<and> w' = log_event TimeTime ws)"
proof (induction rule: loop_cycles)
  case (timeout w)
  then have "deadline \<le> now w"
    by simp
  then show ?case
    by blast
qed simp_all

lemma loop_some_started:
  "private_wait_loop E imdata deadline threshold w = (r, w') \<Longrightarrow>
   \<forall>m. r = Returns (Some m) \<longrightarrow>
     (\<exists>ws w2. now ws < deadline \<and> match E imdata (log_event TimeTime ws) = (Returns m, w2)
        \<and> \<not> py_lt (similarity m) threshold
        \<and> w' = time_sleep (1 / 10) (log_event TimeTime w2))"
  by (induction rule: loop_cycles) auto

text \<open>
  Claim C10. The loop tests the deadline only when a cycle starts. A cycle that starts
  before the deadline and whose score is not below the threshold returns its result
  after the sleep, however late the clock is by then. A cycle that starts before the
  deadline and scores below the threshold does not end the tier, however early or late
  it finishes: the test at the start of the next cycle decides. A cycle that would
  start at or after the deadline ends the tier without a result. So over a whole tier:
  it ends without a result only at the start of a cycle that is at or after the
  deadline, and it returns a result only from a cycle that started before the
  deadline.
\<close>

theorem deadline_read_at_cycle_start:
  "(now w < deadline \<and> match E imdata (log_event TimeTime w) = (Returns m, w2)
      \<and> \<not> py_lt (similarity m) threshold \<longrightarrow>
      private_wait_loop E imdata deadline threshold w =
        (Returns (Some m), time_sleep (1 / 10) (log_event TimeTime w2)))
   \<and> (now w < deadline \<and> match E imdata (log_event TimeTime w) = (Returns m, w2)
      \<and> py_lt (similarity m) threshold \<longrightarrow>
      private_wait_loop E imdata deadline threshold w =
        private_wait_loop E imdata deadline threshold (log_event TimeTime w2))
   \<and> (deadline \<le> now w \<longrightarrow>
      private_wait_loop E imdata deadline threshold w = (Returns None, log_event TimeTime w))
   \<and> (private_wait_loop E imdata deadline threshold w = (Returns None, w') \<longrightarrow>
      deadline \<le> now w' \<and> (\<exists>ws. deadline \<le> now ws \<and> w' = log_event TimeTime ws))
   \<and> (private_wait_loop E imdata deadline threshold w = (Returns (Some m'), w'') \<longrightarrow>
      (\<exists>ws ws2. now ws < deadline
         \<and> match E imdata (log_event TimeTime ws) = (Returns m', ws2)
         \<and> \<not> py_lt (similarity m') threshold
         \<and> w'' = time_sleep (1 / 10) (log_event TimeTime ws2)))"
proof -
  have none: "deadline \<le> now w' \<and> (\<exists>ws. deadline \<le> now ws \<and> w' = log_event TimeTime ws)"
    if "private_wait_loop E imdata deadline threshold w = (Returns None, w')"
    using loop_none_late [OF that] by auto
  have some: "\<exists>ws ws2. now ws < deadline
         \<and> match E imdata (log_event TimeTime ws) = (Returns m', ws2)
         \<and> \<not> py_lt (similarity m') threshold
         \<and> w'' = time_sleep (1 / 10) (log_event TimeTime ws2)"
    if "private_wait_loop E imdata deadline threshold w = (Returns (Some m'), w'')"
    using loop_some_started [OF that] by simp
  from none some show ?thesis
    by (simp add: loop_found loop_retry loop_timeout)
qed

theorem deadline_read_at_cycle_start_witness:
  "now (lab_world [(40, Inr [[[95]]])]) < 1001
   \<and> match lab_env (Str ''t.png'') (log_event TimeTime (lab_world [(40, Inr [[[95]]])])) =
       (Returns \<lparr>similarity = Finite (95 / 100), point = (10, 20)\<rparr>,
        \<lparr>now = 1040, screens = [],
         trace = [TimeTime, IsFile ''t.png'', Cv2Imread ''t.png'', LoadTemplate, Screenshot, Find]\<rparr>)
   \<and> (1001 :: rat) \<le> 1040
   \<and> private_wait_loop lab_env (Str ''t.png'') 1001 (9 / 10) (lab_world [(40, Inr [[[95]]])]) =
       (Returns (Some \<lparr>similarity = Finite (95 / 100), point = (10, 20)\<rparr>),
        \<lparr>now = 1040 + 1 / 10, screens = [],
         trace = [TimeTime, IsFile ''t.png'', Cv2Imread ''t.png'', LoadTemplate, Screenshot, Find,
                  TimeTime, Sleep (1 / 10)]\<rparr>)
   \<and> private_wait_loop lab_env (Str ''t.png'') 1001 (9 / 10)
         (lab_world [(1 / 2, Inr [[[50]]]), (40, Inr [[[95]]])]) =
       private_wait_loop lab_env (Str ''t.png'') 1001 (9 / 10)
         \<lparr>now = 1000 + 1 / 2, screens = [(40, Inr [[[95]]])],
          trace = [TimeTime, IsFile ''t.png'', Cv2Imread ''t.png'', LoadTemplate, Screenshot, Find,
                   TimeTime]\<rparr>
   \<and> private_wait_loop lab_env (Str ''t.png'') 1000 (9 / 10) (lab_world [(40, Inr [[[95]]])]) =
       (Returns None, log_event TimeTime (lab_world [(40, Inr [[[95]]])]))
   \<and> fst (private_wait_loop lab_env (Str ''t.png'') 1001 (9 / 10)
         (lab_world [(1 / 2, Inr [[[50]]]), (1 / 2, Inr [[[50]]]), (1 / 2, Inr [[[95]]])])) =
       Returns None
   \<and> 1001 \<le> now (snd (private_wait_loop lab_env (Str ''t.png'') 1001 (9 / 10)
         (lab_world [(1 / 2, Inr [[[50]]]), (1 / 2, Inr [[[50]]]), (1 / 2, Inr [[[95]]])])))
   \<and> fst (private_wait_loop lab_env (Str ''t.png'') 1001 (9 / 10)
         (lab_world [(1 / 2, Inr [[[50]]]), (40, Inr [[[95]]])])) =
       Returns (Some \<lparr>similarity = Finite (95 / 100), point = (10, 20)\<rparr>)
   \<and> (\<exists>ws ws2. now ws < 1001
         \<and> match lab_env (Str ''t.png'') (log_event TimeTime ws) =
             (Returns \<lparr>similarity = Finite (95 / 100), point = (10, 20)\<rparr>, ws2)
         \<and> snd (private_wait_loop lab_env (Str ''t.png'') 1001 (9 / 10)
               (lab_world [(1 / 2, Inr [[[50]]]), (40, Inr [[[95]]])])) =
             time_sleep (1 / 10) (log_event TimeTime ws2))"
proof -
  let ?im = "Str ''t.png''"
  let ?cycle = "[TimeTime, IsFile ''t.png'', Cv2Imread ''t.png'', LoadTemplate, Screenshot, Find]"
  let ?m50 = "\<lparr>similarity = Finite (50 / 100), point = (10, 20)\<rparr>"
  let ?m = "\<lparr>similarity = Finite (95 / 100), point = (10, 20)\<rparr>"
  let ?w = "lab_world [(40, Inr [[[95]]])]"
  let ?w2 = "\<lparr>now = 1040, screens = [], trace = ?cycle\<rparr>"
  let ?wa = "lab_world [(1 / 2, Inr [[[50]]]), (40, Inr [[[95]]])]"
  let ?wa2 = "\<lparr>now = 1000 + 1 / 2, screens = [(40, Inr [[[95]]])], trace = ?cycle\<rparr>"
  let ?wc = "lab_world [(1 / 2, Inr [[[50]]]), (1 / 2, Inr [[[50]]]), (1 / 2, Inr [[[95]]])]"
  note at = deadline_read_at_cycle_start [where E = lab_env and imdata = ?im
      and threshold = "9 / 10"]
  have start: "now ?w < 1001"
    by (simp add: lab_world_def)
  have cycle: "match lab_env ?im (log_event TimeTime ?w) = (Returns ?m, ?w2)"
    by (simp add: match_def log_event_def d_screenshot_def lab_env_def lab_world_def lab_score_def)
  have late: "(1000 :: rat) \<le> now ?w"
    by (simp add: lab_world_def)
  have low: "match lab_env ?im (log_event TimeTime ?wa) = (Returns ?m50, ?wa2)"
    by (simp add: match_def log_event_def d_screenshot_def lab_env_def lab_world_def lab_score_def)
  obtain waF where ra: "private_wait_loop lab_env ?im 1001 (9 / 10) ?wa = (Returns (Some ?m), waF)"
    by (simp add: lab_run)
  obtain wcF where rc: "private_wait_loop lab_env ?im 1001 (9 / 10) ?wc = (Returns None, wcF)"
    by (simp add: lab_run)
  from at [where w = ?w and deadline = 1001 and m = ?m and ?w2.0 = ?w2 and w' = wcF
      and m' = ?m and w'' = waF] start cycle
  have "private_wait_loop lab_env ?im 1001 (9 / 10) ?w =
      (Returns (Some ?m), time_sleep (1 / 10) (log_event TimeTime ?w2))"
    by simp
  then have c1: "private_wait_loop lab_env ?im 1001 (9 / 10) ?w =
      (Returns (Some ?m),
       \<lparr>now = 1040 + 1 / 10, screens = [],
        trace = [TimeTime, IsFile ''t.png'', Cv2Imread ''t.png'', LoadTemplate, Screenshot, Find,
                 TimeTime, Sleep (1 / 10)]\<rparr>)"
    by (simp add: time_sleep_def log_event_def)
  from at [where w = ?wa and deadline = 1001 and m = ?m50 and ?w2.0 = ?wa2 and w' = wcF
      and m' = ?m and w'' = waF] low
  have "private_wait_loop lab_env ?im 1001 (9 / 10) ?wa =
      private_wait_loop lab_env ?im 1001 (9 / 10) (log_event TimeTime ?wa2)"
    by (simp add: lab_world_def)
  then have c2: "private_wait_loop lab_env ?im 1001 (9 / 10) ?wa =
      private_wait_loop lab_env ?im 1001 (9 / 10)
        \<lparr>now = 1000 + 1 / 2, screens = [(40, Inr [[[95]]])],
         trace = [TimeTime, IsFile ''t.png'', Cv2Imread ''t.png'', LoadTemplate, Screenshot, Find,
                  TimeTime]\<rparr>"
    by (simp add: log_event_def)
  from at [where w = ?w and deadline = 1000 and m = ?m and ?w2.0 = ?w2 and w' = wcF
      and m' = ?m and w'' = waF] late
  have c3: "private_wait_loop lab_env ?im 1000 (9 / 10) ?w = (Returns None, log_event TimeTime ?w)"
    by simp
  from at [where w = ?wc and deadline = 1001 and m = ?m and ?w2.0 = ?w2 and w' = wcF
      and m' = ?m and w'' = waF] rc
  have "1001 \<le> now wcF"
    by simp
  with rc have c4: "fst (private_wait_loop lab_env ?im 1001 (9 / 10) ?wc) = Returns None"
    and c5: "1001 \<le> now (snd (private_wait_loop lab_env ?im 1001 (9 / 10) ?wc))"
    by simp_all
  from at [where w = ?wa and deadline = 1001 and m = ?m50 and ?w2.0 = ?wa2 and w' = wcF
      and m' = ?m and w'' = waF] ra
  have "\<exists>ws ws2. now ws < 1001
         \<and> match lab_env ?im (log_event TimeTime ws) = (Returns ?m, ws2)
         \<and> waF = time_sleep (1 / 10) (log_event TimeTime ws2)"
    by blast
  with ra have c6: "fst (private_wait_loop lab_env ?im 1001 (9 / 10) ?wa) = Returns (Some ?m)"
    and c7: "\<exists>ws ws2. now ws < 1001
         \<and> match lab_env ?im (log_event TimeTime ws) = (Returns ?m, ws2)
         \<and> snd (private_wait_loop lab_env ?im 1001 (9 / 10) ?wa) =
             time_sleep (1 / 10) (log_event TimeTime ws2)"
    by simp_all
  have c0: "(1001 :: rat) \<le> 1040"
    by simp
  show ?thesis
    by (intro conjI) (fact start cycle c0 c1 c2 c3 c4 c5 c6 c7)+
qed

subsection \<open>How often the template is read\<close>

text \<open>Counting the fetches, the file reads and the screenshots of a run.\<close>

lemma d_screenshot_count:
  assumes "d_screenshot w = (r, w')" and "ev \<noteq> Screenshot"
  shows "count_list (trace w') ev = count_list (trace w) ev"
    and "count_list (trace w') Screenshot \<le> Suc (count_list (trace w) Screenshot)"
    and "r = Returns frame \<Longrightarrow> count_list (trace w') Screenshot = Suc (count_list (trace w) Screenshot)"
  using assms by (auto simp: d_screenshot_def split: list.splits)

lemma imread_count_url:
  assumes "\<not> prefix ''data:image/'' url" and "prefix ''http://'' url \<or> prefix ''https://'' url"
    and "imread E (Str url) w = (r, w')"
  shows "trace w' = trace w @ [HttpGet url]"
  using assms by (auto simp: open_image_url_def Let_def split: sum.splits)

lemma imread_count_file:
  assumes "\<not> prefix ''data:image/'' path" and "\<not> prefix ''http://'' path"
    and "\<not> prefix ''https://'' path" and "os_path_isfile E path"
    and "imread E (Str path) w = (r, w')"
  shows "trace w' = trace w @ [IsFile path, Cv2Imread path]"
  using assms by (auto simp: Let_def split: option.splits)

text \<open>
  A reference is read by \<open>ev\<close> when every call of \<^verbatim>\<open>imread\<close> on it logs \<open>ev\<close>
  once, and no screenshot.
\<close>

lemma match_count:
  assumes read: "\<And>w r w'. imread E imdata w = (r, w') \<Longrightarrow>
        count_list (trace w') ev = Suc (count_list (trace w) ev)
        \<and> count_list (trace w') Screenshot = count_list (trace w) Screenshot"
    and ev: "ev \<noteq> LoadTemplate" "ev \<noteq> Screenshot" "ev \<noteq> Find"
    and run: "match E imdata w = (r, w')"
  shows "count_list (trace w') ev = Suc (count_list (trace w) ev)"
    and "count_list (trace w') Screenshot \<le> Suc (count_list (trace w) Screenshot)"
    and "r = Returns m \<Longrightarrow> count_list (trace w') Screenshot = Suc (count_list (trace w) Screenshot)"
proof -
  obtain r1 w1 where i: "imread E imdata w = (r1, w1)"
    by (cases "imread E imdata w")
  note c1 = read [OF i]
  obtain r3 w3 where s: "d_screenshot (log_event LoadTemplate w1) = (r3, w3)"
    by (cases "d_screenshot (log_event LoadTemplate w1)")
  note c3 = d_screenshot_count [OF s ev(2)]
  from run i s c1 c3(1) ev
  show "count_list (trace w') ev = Suc (count_list (trace w) ev)"
    by (auto simp: match_def Let_def split: outcome.splits option.splits sum.splits)
  from run i s c1 c3(2)
  show "count_list (trace w') Screenshot \<le> Suc (count_list (trace w) Screenshot)"
    by (auto simp: match_def Let_def split: outcome.splits option.splits sum.splits)
  show "count_list (trace w') Screenshot = Suc (count_list (trace w) Screenshot)" if "r = Returns m"
    using that run i s c1 c3(3)
    by (auto simp: match_def Let_def split: outcome.splits option.splits sum.splits)
qed

lemma loop_count:
  assumes run: "private_wait_loop E imdata deadline threshold w = (r, w')"
    and read: "\<And>w r w'. imread E imdata w = (r, w') \<Longrightarrow>
        count_list (trace w') ev = Suc (count_list (trace w) ev)
        \<and> count_list (trace w') Screenshot = count_list (trace w) Screenshot"
    and ev: "poll_event ev" "ev \<noteq> TimeTime" "ev \<noteq> LoadTemplate" "ev \<noteq> Screenshot" "ev \<noteq> Find"
  shows "count_list (trace w') Screenshot + count_list (trace w) ev
           \<le> count_list (trace w') ev + count_list (trace w) Screenshot
         \<and> ((\<exists>x. r = Returns x) \<longrightarrow>
            count_list (trace w') Screenshot + count_list (trace w) ev
              = count_list (trace w') ev + count_list (trace w) Screenshot)"
  using run
proof (induction rule: loop_cycles)
  case (timeout w)
  from ev show ?case by simp
next
  case (raises w e w2)
  from match_count(1,2) [OF read ev(3,4,5) raises(2)] ev show ?case by simp
next
  case (unscripted w w2)
  from match_count(1,2) [OF read ev(3,4,5) unscripted(2)] ev show ?case by simp
next
  case (found w m w2)
  from match_count(1,3) [OF read ev(3,4,5) found(2)] ev show ?case
    by (auto simp: time_sleep_def)
next
  case (retry w m w2 r w')
  from match_count(1,3) [OF read ev(3,4,5) retry(2)] ev retry(5) show ?case by auto
qed

lemma wait_count:
  assumes run: "wait E imdata timeout w = (r, w')"
    and read: "\<And>w r w'. imread E imdata w = (r, w') \<Longrightarrow>
        count_list (trace w') ev = Suc (count_list (trace w) ev)
        \<and> count_list (trace w') Screenshot = count_list (trace w) Screenshot"
    and ev: "poll_event ev" "ev \<noteq> TimeTime" "ev \<noteq> LoadTemplate" "ev \<noteq> Screenshot" "ev \<noteq> Find"
  shows "count_list (trace w') Screenshot + count_list (trace w) ev
           \<le> count_list (trace w') ev + count_list (trace w) Screenshot
         \<and> ((\<exists>x. r = Returns x) \<longrightarrow>
            count_list (trace w') Screenshot + count_list (trace w) ev
              = count_list (trace w') ev + count_list (trace w) Screenshot)"
proof -
  have tier: "count_list (trace w2) Screenshot + count_list (trace w1) ev
           \<le> count_list (trace w2) ev + count_list (trace w1) Screenshot
         \<and> ((\<exists>x. r2 = Returns x) \<longrightarrow>
            count_list (trace w2) Screenshot + count_list (trace w1) ev
              = count_list (trace w2) ev + count_list (trace w1) Screenshot)"
    if "private_wait E imdata timeout threshold w1 = (r2, w2)" for threshold w1 r2 w2
    using loop_count [OF that [unfolded private_wait_loop_eq] read ev] ev(2)
    by simp
  obtain r1 w1 where t1: "private_wait E imdata timeout (8 / 10) w = (r1, w1)"
    by (cases "private_wait E imdata timeout (8 / 10) w")
  show ?thesis
  proof (cases "\<exists>m1. r1 = Returns (Some m1)")
    case False
    with run t1 have "r = r1" and "w' = w1"
      by (auto simp: wait_cases split: outcome.splits option.splits)
    with tier [OF t1] show ?thesis by simp
  next
    case True
    with run t1 have t2: "private_wait E imdata timeout (9 / 10) w1 = (r, w')"
      by (auto simp: wait_cases)
    from tier [OF t1] tier [OF t2] True show ?thesis
      by auto
  qed
qed

text \<open>
  Against claim C4 as it is stated: \<^verbatim>\<open>wait\<close> does not decode the template once.
  \<^verbatim>\<open>match\<close> calls \<^verbatim>\<open>imread\<close> itself, so a wait of four poll cycles on a URL
  fetches it four times.
\<close>

theorem template_read_every_cycle_counterexample:
  "count_list
     (trace (snd (wait lab_env (Str ''http://host/t.png'') 30
        (lab_world [(1 / 2, Inr [[[50]]]), (1 / 2, Inr [[[85]]]), (1 / 2, Inr [[[85]]]),
                    (1 / 2, Inr [[[95]]])]))))
     (HttpGet ''http://host/t.png'') = 4"
  by (simp add: lab_run)

text \<open>
  Claim C4, amended. Every poll cycle reads the template reference anew, at the start
  of \<^verbatim>\<open>match\<close> and before the screenshot: an error of \<^verbatim>\<open>imread\<close> is the error
  of that cycle's \<^verbatim>\<open>match\<close>; for a URL the fetches of a wait are never fewer than
  its screenshots, and as many when the wait returns; for an existing file the same
  holds of the file reads.
\<close>

theorem template_read_every_cycle:
  "(\<not> prefix ''data:image/'' url \<and> (prefix ''http://'' url \<or> prefix ''https://'' url)
      \<and> wait E (Str url) timeout w = (r, w') \<longrightarrow>
      count_list (trace w') Screenshot + count_list (trace w) (HttpGet url)
        \<le> count_list (trace w') (HttpGet url) + count_list (trace w) Screenshot
      \<and> ((\<exists>x. r = Returns x) \<longrightarrow>
         count_list (trace w') Screenshot + count_list (trace w) (HttpGet url)
           = count_list (trace w') (HttpGet url) + count_list (trace w) Screenshot))
   \<and> (\<not> prefix ''data:image/'' path \<and> \<not> prefix ''http://'' path \<and> \<not> prefix ''https://'' path
      \<and> os_path_isfile E path \<and> wait E (Str path) timeout w = (r, w') \<longrightarrow>
      count_list (trace w') Screenshot + count_list (trace w) (Cv2Imread path)
        \<le> count_list (trace w') (Cv2Imread path) + count_list (trace w) Screenshot
      \<and> ((\<exists>x. r = Returns x) \<longrightarrow>
         count_list (trace w') Screenshot + count_list (trace w) (Cv2Imread path)
           = count_list (trace w') (Cv2Imread path) + count_list (trace w) Screenshot))
   \<and> (imread E imdata w = (Raises e, w1) \<longrightarrow> match E imdata w = (Raises e, w1))"
proof -
  have url: "count_list (trace w') Screenshot + count_list (trace w) (HttpGet url)
        \<le> count_list (trace w') (HttpGet url) + count_list (trace w) Screenshot
      \<and> ((\<exists>x. r = Returns x) \<longrightarrow>
         count_list (trace w') Screenshot + count_list (trace w) (HttpGet url)
           = count_list (trace w') (HttpGet url) + count_list (trace w) Screenshot)"
    if a: "\<not> prefix ''data:image/'' url" and b: "prefix ''http://'' url \<or> prefix ''https://'' url"
      and run: "wait E (Str url) timeout w = (r, w')"
  proof (rule wait_count [OF run])
    fix w r w'
    assume "imread E (Str url) w = (r, w')"
    from imread_count_url [OF a b this]
    show "count_list (trace w') (HttpGet url) = Suc (count_list (trace w) (HttpGet url))
        \<and> count_list (trace w') Screenshot = count_list (trace w) Screenshot"
      by simp
  qed simp_all
  have disk: "count_list (trace w') Screenshot + count_list (trace w) (Cv2Imread path)
        \<le> count_list (trace w') (Cv2Imread path) + count_list (trace w) Screenshot
      \<and> ((\<exists>x. r = Returns x) \<longrightarrow>
         count_list (trace w') Screenshot + count_list (trace w) (Cv2Imread path)
           = count_list (trace w') (Cv2Imread path) + count_list (trace w) Screenshot)"
    if a: "\<not> prefix ''data:image/'' path" and b: "\<not> prefix ''http://'' path"
      and c: "\<not> prefix ''https://'' path" and d: "os_path_isfile E path"
      and run: "wait E (Str path) timeout w = (r, w')"
  proof (rule wait_count [OF run])
    fix w r w'
    assume "imread E (Str path) w = (r, w')"
    from imread_count_file [OF a b c d this]
    show "count_list (trace w') (Cv2Imread path) = Suc (count_list (trace w) (Cv2Imread path))
        \<and> count_list (trace w') Screenshot = count_list (trace w) Screenshot"
      by simp
  qed simp_all
  have "match E imdata w = (Raises e, w1)" if "imread E imdata w = (Raises e, w1)"
    using that by (simp add: match_def)
  with url disk show ?thesis
    by blast
qed

theorem template_read_every_cycle_witness:
  "count_list
     (trace (snd (wait lab_env (Str ''http://host/t.png'') 30
        (lab_world [(1 / 2, Inr [[[50]]]), (1 / 2, Inr [[[85]]]), (1 / 2, Inr [[[95]]])]))))
     Screenshot =
   count_list
     (trace (snd (wait lab_env (Str ''http://host/t.png'') 30
        (lab_world [(1 / 2, Inr [[[50]]]), (1 / 2, Inr [[[85]]]), (1 / 2, Inr [[[95]]])]))))
     (HttpGet ''http://host/t.png'')
   \<and> count_list
     (trace (snd (wait lab_env (Str ''t.png'') 30
        (lab_world [(1 / 2, Inr [[[50]]]), (1 / 2, Inr [[[85]]]), (1 / 2, Inr [[[95]]])]))))
     Screenshot =
   count_list
     (trace (snd (wait lab_env (Str ''t.png'') 30
        (lab_world [(1 / 2, Inr [[[50]]]), (1 / 2, Inr [[[85]]]), (1 / 2, Inr [[[95]]])]))))
     (Cv2Imread ''t.png'')
   \<and> match lab_env (Str ''missing.png'') (lab_world []) =
     (Raises (IOError ''image read invalid data: missing.png''),
      log_event (IsFile ''missing.png'') (lab_world []))"
proof -
  let ?W = "lab_world [(1 / 2, Inr [[[50]]]), (1 / 2, Inr [[[85]]]), (1 / 2, Inr [[[95]]])]"
  let ?url = "''http://host/t.png''"
  let ?m95 = "\<lparr>similarity = Finite (95 / 100), point = (10, 20)\<rparr>"
  let ?e = "IOError ''image read invalid data: missing.png''"
  obtain Wu where ru: "wait lab_env (Str ?url) 30 ?W = (Returns (Some ?m95), Wu)"
    by (simp add: lab_run)
  obtain Wf where rf: "wait lab_env (Str ''t.png'') 30 ?W = (Returns (Some ?m95), Wf)"
    by (simp add: lab_run)
  have i: "imread lab_env (Str ''missing.png'') (lab_world []) =
      (Raises ?e, log_event (IsFile ''missing.png'') (lab_world []))"
    by (simp add: lab_env_def)
  have isfile: "os_path_isfile lab_env ''t.png''"
    by (simp add: lab_env_def)
  have start: "trace ?W = []"
    by (simp add: lab_world_def)
  from template_read_every_cycle [where E = lab_env and url = ?url and path = "''t.png''"
      and timeout = 30 and w = ?W and r = "Returns (Some ?m95)" and w' = Wu
      and imdata = "Str ''missing.png''" and e = ?e
      and ?w1.0 = "log_event (IsFile ''missing.png'') ?W"] ru start
  have cu: "count_list (trace Wu) Screenshot = count_list (trace Wu) (HttpGet ?url)"
    by simp
  from template_read_every_cycle [where E = lab_env and url = ?url and path = "''t.png''"
      and timeout = 30 and w = ?W and r = "Returns (Some ?m95)" and w' = Wf
      and imdata = "Str ''missing.png''" and e = ?e
      and ?w1.0 = "log_event (IsFile ''missing.png'') ?W"] rf start isfile
  have cf: "count_list (trace Wf) Screenshot = count_list (trace Wf) (Cv2Imread ''t.png'')"
    by simp
  from template_read_every_cycle [where E = lab_env and url = ?url and path = "''t.png''"
      and timeout = 30 and w = "lab_world []" and r = "Returns (Some ?m95)" and w' = Wf
      and imdata = "Str ''missing.png''" and e = ?e
      and ?w1.0 = "log_event (IsFile ''missing.png'') (lab_world [])"] i
  have cm: "match lab_env (Str ''missing.png'') (lab_world []) =
      (Raises ?e, log_event (IsFile ''missing.png'') (lab_world []))"
    by blast
  from ru rf cu cf cm show ?thesis
    by simp
qed

end
